theory Spec2Isabelle
  imports Main "HOL-Library.Sublist"
begin

section \<open>Python values and exceptions\<close>

text \<open>
  Python's \<open>str\<close> is modelled as \<^typ>\<open>string\<close>: a list of characters, each
  character standing for the code point of the same number (the code points below 256).
  An exception is a value of \<open>pyerr\<close>, carrying the message or key the source raises
  it with; a function that can raise returns \<open>pyerr + 'a\<close>, with \<open>Inl\<close> for the
  exception. \<open>IOError\<close> is Python 3's alias of \<open>OSError\<close>.
\<close>

datatype pyerr =
    KeyError string
  | ValueError string
  | TypeError string
  | OSError string
  | FileNotFoundError string
  | UnboundLocalError string
  | UnicodeDecodeError
  | ZeroDivisionError

abbreviation LF :: char where
  "LF \<equiv> CHR 0x0A"

abbreviation CR :: char where
  "CR \<equiv> CHR 0x0D"


section \<open>Sequence transforms (utils/bio.py)\<close>

text \<open>\<open>is_valid_dna\<close>: the loop returns False at the first base outside the list.\<close>

definition valid_bases :: "char list" where
  "valid_bases = [CHR ''A'', CHR ''T'', CHR ''G'', CHR ''C'']"

fun is_valid_dna :: "string \<Rightarrow> bool" where
  "is_valid_dna [] = True"
| "is_valid_dna (base # rest) = (if base \<notin> set valid_bases then False else is_valid_dna rest)"

text \<open>\<open>reverse\<close>: the slice \<open>sequence[::-1]\<close>.\<close>

definition reverse :: "string \<Rightarrow> string" where
  "reverse sequence = rev sequence"

text \<open>
  \<open>complement\<close>: the dictionary of the source, keyed by one-character strings, and the
  list comprehension over it. A subscript with a key the dictionary lacks raises
  \<open>KeyError\<close> with that key, at the first such base.
\<close>

definition complement_dict :: "char \<rightharpoonup> char" where
  "complement_dict =
     [CHR ''A'' \<mapsto> CHR ''T'', CHR ''C'' \<mapsto> CHR ''G'', CHR ''T'' \<mapsto> CHR ''A'', CHR ''G'' \<mapsto> CHR ''C'']"

fun complement_bases :: "string \<Rightarrow> pyerr + string" where
  "complement_bases [] = Inr []"
| "complement_bases (base # rest) =
     (case complement_dict base of
        None \<Rightarrow> Inl (KeyError [base])
      | Some b \<Rightarrow>
          (case complement_bases rest of
             Inl e \<Rightarrow> Inl e
           | Inr bs \<Rightarrow> Inr (b # bs)))"

definition complement :: "string \<Rightarrow> pyerr + string" where
  "complement sequence = complement_bases sequence"

definition reverse_complement :: "string \<Rightarrow> pyerr + string" where
  "reverse_complement sequence = complement (reverse sequence)"

section \<open>String primitives of Python\<close>

text \<open>
  \<open>str.split(sep)\<close> with a one-character separator: a scan that closes the current
  piece at every separator. The result always has at least one piece.
\<close>

fun split_sep :: "char \<Rightarrow> string \<Rightarrow> string \<Rightarrow> string list" where
  "split_sep sep piece [] = [piece]"
| "split_sep sep piece (c # cs) =
     (if c = sep then piece # split_sep sep [] cs else split_sep sep (piece @ [c]) cs)"

definition py_split_on :: "char \<Rightarrow> string \<Rightarrow> string list" where
  "py_split_on sep s = split_sep sep [] s"

text \<open>
  \<open>str.split()\<close> without a separator splits at runs of whitespace and returns no empty
  word. The whitespace characters below 256 are the ASCII controls 9 to 13 and 28 to 31,
  the space, NEL (133) and the no-break space (160).
\<close>

definition py_isspace :: "char \<Rightarrow> bool" where
  "py_isspace c =
     (let n = (of_char c :: nat)
      in (9 \<le> n \<and> n \<le> 13) \<or> (28 \<le> n \<and> n \<le> 32) \<or> n = 133 \<or> n = 160)"

fun split_ws :: "string \<Rightarrow> string \<Rightarrow> string list" where
  "split_ws word [] = (if word = [] then [] else [word])"
| "split_ws word (c # cs) =
     (if py_isspace c
      then (if word = [] then split_ws [] cs else word # split_ws [] cs)
      else split_ws (word @ [c]) cs)"

definition py_split :: "string \<Rightarrow> string list" where
  "py_split s = split_ws [] s"

text \<open>\<open>str.find(c)\<close>: the index of the first occurrence, or \<open>-1\<close>.\<close>

fun find_from :: "int \<Rightarrow> char \<Rightarrow> string \<Rightarrow> int" where
  "find_from k c [] = -1"
| "find_from k c (x # xs) = (if x = c then k else find_from (k + 1) c xs)"

definition py_find :: "char \<Rightarrow> string \<Rightarrow> int" where
  "py_find c s = find_from 0 c s"

text \<open>
  The slice \<open>s[start:]\<close>: a negative start counts from the end of the string (and stops
  at its beginning), a start beyond the end gives the empty string.
\<close>

definition slice_from :: "string \<Rightarrow> int \<Rightarrow> string" where
  "slice_from s start =
     (if start < 0 then drop (nat (int (length s) + start)) s else drop (nat start) s)"

definition endswith :: "string \<Rightarrow> string \<Rightarrow> bool" where
  "endswith s suf =
     (length suf \<le> length s \<and> drop (length s - length suf) s = suf)"

definition startswith :: "string \<Rightarrow> string \<Rightarrow> bool" where
  "startswith s pre = (take (length pre) s = pre)"


section \<open>GC content (utils/bio.py, gc_content)\<close>

text \<open>
  \<open>gc_content\<close>. \<open>str.upper()\<close> on the code points below 256: the ASCII and Latin-1
  lower-case letters go to their upper-case letters, and the sharp s (223) goes to the
  two letters \<open>SS\<close>, so the upper-cased string can be longer than the string. The micro
  sign (181) and the y with diaeresis (255) go to one character outside the 256 code
  points, which is neither \<open>G\<close> nor \<open>C\<close>; they stand for it here. The variable
  \<open>sequence\<close> is rebound to the upper-cased string before both counts and before
  \<open>len\<close>.

  The result is a Python float. Its two operations are parameters: \<open>float_div a b\<close>
  is \<open>float(a) / b\<close> for \<open>b\<close> other than 0 (Python raises \<open>ZeroDivisionError\<close> for 0),
  and \<open>int_times n x\<close> is \<open>n * x\<close>.
\<close>

definition upper_char :: "char \<Rightarrow> string" where
  "upper_char c =
     (let n = (of_char c :: nat)
      in if 97 \<le> n \<and> n \<le> 122 then [char_of (n - 32)]
         else if n = 223 then ''SS''
         else if 224 \<le> n \<and> n \<le> 254 \<and> n \<noteq> 247 then [char_of (n - 32)]
         else [c])"

definition py_upper :: "string \<Rightarrow> string" where
  "py_upper s = concat (map upper_char s)"

definition py_count :: "char \<Rightarrow> string \<Rightarrow> nat" where
  "py_count c s = length (filter (\<lambda>x. x = c) s)"

definition gc_content ::
  "(nat \<Rightarrow> nat \<Rightarrow> 'f) \<Rightarrow> (nat \<Rightarrow> 'f \<Rightarrow> 'f) \<Rightarrow> string \<Rightarrow> pyerr + 'f" where
  "gc_content float_div int_times s =
     (let upper = py_upper s;
          gc_count = py_count (CHR ''G'') upper + py_count (CHR ''C'') upper
      in if length upper = 0 then Inl ZeroDivisionError
         else Inr (int_times 100 (float_div gc_count (length upper))))"


section \<open>The file system\<close>

text \<open>
  A path names a regular file, a directory with the names of its entries (what
  \<open>os.listdir\<close> returns: files and subdirectories alike), or nothing. A file holds its
  text, or \<open>None\<close> when opening or decoding it fails. \<open>writable\<close> says whether
  \<open>open(path, "w")\<close> succeeds.

  Reading in text mode translates a carriage return, alone or followed by a line feed,
  to a line feed (universal newlines). Writing in text mode translates a line feed to
  \<open>os.linesep\<close>, which is the line feed itself on POSIX systems, the platform modelled
  here.
\<close>

datatype node = File "string option" | Dir "string list"

record filesystem =
  nodes :: "string \<Rightarrow> node option"
  writable :: "string \<Rightarrow> bool"

definition is_file :: "filesystem \<Rightarrow> string \<Rightarrow> bool" where
  "is_file fs path = (case nodes fs path of Some (File _) \<Rightarrow> True | _ \<Rightarrow> False)"

definition is_dir :: "filesystem \<Rightarrow> string \<Rightarrow> bool" where
  "is_dir fs path = (case nodes fs path of Some (Dir _) \<Rightarrow> True | _ \<Rightarrow> False)"

definition listdir :: "filesystem \<Rightarrow> string \<Rightarrow> string list" where
  "listdir fs path = (case nodes fs path of Some (Dir names) \<Rightarrow> names | _ \<Rightarrow> [])"

fun universal_newlines :: "string \<Rightarrow> string" where
  "universal_newlines [] = []"
| "universal_newlines [c] = (if c = CR then [LF] else [c])"
| "universal_newlines (c # d # cs) =
     (if c = CR
      then (if d = LF then LF # universal_newlines cs else LF # universal_newlines (d # cs))
      else c # universal_newlines (d # cs))"

text \<open>\<open>open(f, "r")\<close> followed by \<open>fh.read()\<close>; \<open>None\<close> when either raises.\<close>

definition read_text :: "filesystem \<Rightarrow> string \<Rightarrow> string option" where
  "read_text fs f =
     (case nodes fs f of
        Some (File (Some raw)) \<Rightarrow> Some (universal_newlines raw)
      | _ \<Rightarrow> None)"

text \<open>The file as it is once \<open>open(f, "w")\<close> has been closed after writing \<open>written\<close>.\<close>

definition store_text :: "filesystem \<Rightarrow> string \<Rightarrow> string \<Rightarrow> filesystem" where
  "store_text fs f written = fs\<lparr>nodes := (nodes fs)(f \<mapsto> File (Some written))\<rparr>"


section \<open>FASTA parsing (utils/bio.py, fasta_to_dictionary)\<close>

text \<open>
  A record of the result is the dictionary with the keys \<open>id\<close> and \<open>sequence\<close>, kept
  as its items in insertion order.
\<close>

type_synonym pydict = "(string \<times> string) list"

definition fasta_record :: "string \<Rightarrow> string \<Rightarrow> pydict" where
  "fasta_record description sequence = [(''id'', description), (''sequence'', sequence)]"

text \<open>
  The loop over \<open>input_sequences[1:]\<close>. Its two local variables \<open>description\<close> and
  \<open>end_of_description\<close> are assigned only under \<open>if len(i) > 0\<close>, and the two
  statements after the \<open>if\<close> run for every chunk: \<open>vars\<close> is \<open>None\<close> while the
  variables are unbound, and using them then raises \<open>UnboundLocalError\<close>.
\<close>

fun parse_chunks ::
  "(string \<times> int) option \<Rightarrow> pydict list \<Rightarrow> string list \<Rightarrow> pyerr + pydict list" where
  "parse_chunks vars sequences [] = Inr sequences"
| "parse_chunks vars sequences (i # rest) =
     (let vars' = (if length i > 0 then Some (hd (py_split_on LF i), py_find LF i) else vars)
      in case vars' of
           None \<Rightarrow> Inl (UnboundLocalError ''end_of_description'')
         | Some (description, end_of_description) \<Rightarrow>
             (let sequence = py_split (slice_from i end_of_description)
              in parse_chunks vars' (sequences @ [fasta_record description (concat sequence)]) rest))"

definition parse_fasta_text :: "string \<Rightarrow> pyerr + pydict list" where
  "parse_fasta_text sequence_text =
     (if CHR ''>'' \<in> set sequence_text
      then parse_chunks None [] (drop 1 (py_split_on (CHR ''>'') sequence_text))
      else Inr [fasta_record ''unknown_id'' (concat (py_split_on LF sequence_text))])"

definition not_accessible :: "string \<Rightarrow> pyerr" where
  "not_accessible f = OSError (''Input file '' @ [CHR 0x27] @ f @ [CHR 0x27] @ '' is not accessible.'')"

text \<open>
  The result is what the function prints and what it returns or raises. The bare
  \<open>except\<close> turns every exception of the body into the same \<open>IOError\<close>.
\<close>

definition fasta_to_dictionary ::
  "filesystem \<Rightarrow> string \<Rightarrow> string list \<times> (pyerr + pydict list)" where
  "fasta_to_dictionary fs f =
     (let printed = (if is_file fs f then [] else [''File '' @ f @ '' does not exist.''])
      in (printed,
          case read_text fs f of
            None \<Rightarrow> Inl (not_accessible f)
          | Some sequence_text \<Rightarrow>
              (case parse_fasta_text sequence_text of
                 Inl e \<Rightarrow> Inl (not_accessible f)
               | Inr sequences \<Rightarrow> Inr sequences)))"


section \<open>FASTA serialization (utils/bio.py, write_to_file)\<close>

text \<open>
  The argument \<open>data\<close> is annotated as a list of dictionaries, but the function tests
  its kind at run time, so it is modelled as a Python object: \<open>None\<close>, an integer, a
  string, a list, a tuple, a set (its elements in some order) or a dictionary with
  string keys and string values. Strings, lists and tuples are the instances of
  \<open>collections.abc.Sequence\<close> among them; dictionaries the instances of \<open>Mapping\<close>.
\<close>

datatype pyobj =
    PyNone
  | PyInt int
  | PyStr string
  | PyList "pyobj list"
  | PyTuple "pyobj list"
  | PySet "pyobj list"
  | PyDict pydict

fun truthy :: "pyobj \<Rightarrow> bool" where
  "truthy PyNone = False"
| "truthy (PyInt n) = (n \<noteq> 0)"
| "truthy (PyStr s) = (s \<noteq> [])"
| "truthy (PyList xs) = (xs \<noteq> [])"
| "truthy (PyTuple xs) = (xs \<noteq> [])"
| "truthy (PySet xs) = (xs \<noteq> [])"
| "truthy (PyDict d) = (d \<noteq> [])"

fun is_sequence :: "pyobj \<Rightarrow> bool" where
  "is_sequence (PyStr s) = True"
| "is_sequence (PyList xs) = True"
| "is_sequence (PyTuple xs) = True"
| "is_sequence other = False"

text \<open>What the \<open>for\<close> loop iterates over, for a sequence.\<close>

fun elements :: "pyobj \<Rightarrow> pyobj list" where
  "elements (PyList xs) = xs"
| "elements (PyTuple xs) = xs"
| "elements (PyStr s) = map (\<lambda>c. PyStr [c]) s"
| "elements other = []"

text \<open>
  The loop body, with the text written to the file so far. The loop stops at the first
  exception; what was written before stays in the file.
\<close>

fun write_records :: "string \<Rightarrow> string \<Rightarrow> pyobj list \<Rightarrow> string \<times> (pyerr + unit)" where
  "write_records format written [] = (written, Inr ())"
| "write_records format written (PyDict d # rest) =
     (case map_of d ''id'' of
        None \<Rightarrow> (written, Inl (KeyError ''id''))
      | Some header \<Rightarrow>
          (case map_of d ''sequence'' of
             None \<Rightarrow> (written, Inl (KeyError ''sequence''))
           | Some sequence \<Rightarrow>
               if format = ''fasta''
               then write_records format (written @ ''>'' @ header @ [LF] @ sequence @ [LF]) rest
               else (written, Inl (ValueError (format @ '' format is not available yet.'')))))"
| "write_records format written (other # rest) =
     (written, Inl (ValueError ''dictionary-like object required!''))"

definition only_dictionaries :: pyerr where
  "only_dictionaries = TypeError ''Only input 'data' must be a list of dictionary-like object.''"

definition filename_required :: pyerr where
  "filename_required = ValueError ([CHR 0x27] @ ''filename'' @ [CHR 0x27] @ '' is required.'')"

text \<open>
  \<open>filename\<close> is \<open>None\<close> for Python's \<open>None\<close>. The result is what the function raises
  (or that it returns), and the file system afterwards.
\<close>

definition write_to_file ::
  "filesystem \<Rightarrow> pyobj \<Rightarrow> string option \<Rightarrow> string \<Rightarrow> (pyerr + unit) \<times> filesystem" where
  "write_to_file fs data filename format =
     (if \<not> truthy data
      then (Inl (ValueError ''Requires a content/data to write to the file.''), fs)
      else
        (case filename of
           None \<Rightarrow> (Inl filename_required, fs)
         | Some name \<Rightarrow>
             if name = [] then (Inl filename_required, fs)
             else if is_sequence data
             then
               (if writable fs name
                then
                  (case write_records format [] (elements data) of
                     (written, outcome) \<Rightarrow>
                       ((case outcome of Inl e \<Rightarrow> Inl only_dictionaries | Inr u \<Rightarrow> Inr u),
                        store_text fs name written))
                else (Inl only_dictionaries, fs))
             else (Inr (), fs)))"


section \<open>Hashing and identifiers (utils/bio.py)\<close>

text \<open>
  \<open>hashlib.sha224(...).hexdigest()\<close> belongs to Python's standard library; it is the
  parameter \<open>sha224_hexdigest\<close>, a function from the encoded bytes to the digest.
  \<open>encode("utf-8")\<close> on code points below 256: one byte below 128, two bytes above.
\<close>

definition utf8_encode :: "string \<Rightarrow> char list" where
  "utf8_encode s =
     concat (map (\<lambda>c. if (of_char c :: nat) < 128 then [c]
                       else [char_of (192 + (of_char c :: nat) div 64),
                             char_of (128 + (of_char c :: nat) mod 64)]) s)"

definition generate_hash :: "(char list \<Rightarrow> string) \<Rightarrow> string \<Rightarrow> string" where
  "generate_hash sha224_hexdigest inp = sha224_hexdigest (utf8_encode inp)"

definition ascii_letters :: string where
  "ascii_letters = ''abcdefghijklmnopqrstuvwxyzABCDEFGHIJKLMNOPQRSTUVWXYZ''"

definition digits :: string where
  "digits = ''0123456789''"

text \<open>
  The state of the module \<open>random\<close> is the sequence of its future raw draws.
  \<open>random.choice(seq)\<close> consumes one draw and returns the element of \<open>seq\<close> at an index
  below \<open>len(seq)\<close> that the draw determines.
\<close>

type_synonym rng = "nat \<Rightarrow> nat"

definition random_choice :: "'a list \<Rightarrow> rng \<Rightarrow> 'a \<times> rng" where
  "random_choice seq g = (seq ! (g 0 mod length seq), \<lambda>n. g (Suc n))"

fun random_choices :: "'a list \<Rightarrow> nat \<Rightarrow> rng \<Rightarrow> 'a list \<times> rng" where
  "random_choices seq 0 g = ([], g)"
| "random_choices seq (Suc n) g =
     (case random_choice seq g of
        (c, g') \<Rightarrow> (case random_choices seq n g' of (cs, g'') \<Rightarrow> (c # cs, g'')))"

record sequence_info =
  hash_id :: string
  sequence_id :: string
  description :: "string option"
  sequence :: string

definition generate_sequence_info ::
  "(char list \<Rightarrow> string) \<Rightarrow> rng \<Rightarrow> string \<Rightarrow> string option \<Rightarrow> sequence_info \<times> rng" where
  "generate_sequence_info sha224_hexdigest g sequence_arg description_arg =
     (case random_choices (ascii_letters @ digits) 32 g of
        (chosen, g') \<Rightarrow>
          (\<lparr>hash_id = generate_hash sha224_hexdigest chosen,
            sequence_id = chosen,
            description = None,
            sequence = concat (py_split sequence_arg)\<rparr>, g'))"


section \<open>File helpers (utils/common.py)\<close>

text \<open>
  \<open>check_output\<close> runs the command: it returns the output when the exit status is 0,
  raises \<open>CalledProcessError\<close> carrying the output otherwise, and raises another
  exception when the program cannot be started. The output is bytes;
  \<open>e.output.decode()\<close> gives its text, or raises when the bytes are not UTF-8
  (\<open>None\<close> below).
\<close>

datatype process_result =
    Returned
  | CalledProcessError "string option"
  | Raised pyerr

text \<open>The result is what the function prints, in order, and what it raises or returns.\<close>

definition compress_file ::
  "(string list \<Rightarrow> process_result) \<Rightarrow> string \<Rightarrow> string list \<times> (pyerr + unit)" where
  "compress_file check_output file_name =
     (let gzipped = file_name @ '' has been gzipped.''
      in case check_output [''gzip'', ''-f'', file_name] of
           CalledProcessError output \<Rightarrow>
             (case output of
                None \<Rightarrow> ([gzipped], Inl UnicodeDecodeError)
              | Some decoded \<Rightarrow> ([''Failed to gzip: '' @ decoded @ ''.'', gzipped], Inr ()))
         | Returned \<Rightarrow> ([gzipped], Inl (OSError ''Failed to execute 'gzip'.''))
         | Raised e \<Rightarrow> ([gzipped], Inl e))"

text \<open>\<open>os.path.join\<close> of two components (posixpath).\<close>

definition os_path_join :: "string \<Rightarrow> string \<Rightarrow> string" where
  "os_path_join a b =
     (if startswith b ''/'' then b
      else if a = [] \<or> endswith a ''/'' then a @ b
      else a @ ''/'' @ b)"

definition no_matching_file :: "string \<Rightarrow> pyerr" where
  "no_matching_file extension =
     FileNotFoundError (''Input must be either a '' @ [CHR 0x27] @ extension @ [CHR 0x27, CHR 0x27] @
       '' file or a directory containing multiple '' @ [CHR 0x27] @ extension @ [CHR 0x27] @ '' files.'')"

definition filename_by_extension :: "filesystem \<Rightarrow> string \<Rightarrow> string \<Rightarrow> pyerr + string list" where
  "filename_by_extension fs input_path extension =
     (case (if is_dir fs input_path
            then Inr (map (os_path_join input_path)
                       (filter (\<lambda>entry. endswith entry extension) (listdir fs input_path)))
            else if is_file fs input_path
            then Inr (if endswith input_path extension then [input_path] else [])
            else Inl (ValueError (''No such input found: '' @ input_path))) of
        Inl e \<Rightarrow> Inl e
      | Inr files \<Rightarrow> if files = [] then Inl (no_matching_file extension) else Inr files)"


section \<open>Notions of the specification\<close>

text \<open>
  The definitions of this section are not translations of code: they are the notions
  in which the properties below are stated, and the file systems of the examples.
\<close>

text \<open>The letters of the DNA alphabet, and the table that exchanges \<open>A\<close> with \<open>T\<close> and
  \<open>C\<close> with \<open>G\<close> (the identity elsewhere; the theorems use it on the four bases only).\<close>

definition dna_letter :: "char \<Rightarrow> bool" where
  "dna_letter c = (c = CHR ''A'' \<or> c = CHR ''T'' \<or> c = CHR ''C'' \<or> c = CHR ''G'')"

definition base_pair :: "char \<Rightarrow> char" where
  "base_pair c =
     (if c = CHR ''A'' then CHR ''T''
      else if c = CHR ''T'' then CHR ''A''
      else if c = CHR ''C'' then CHR ''G''
      else if c = CHR ''G'' then CHR ''C''
      else c)"

text \<open>
  The record the specification describes for one chunk of FASTA text: the id is the
  chunk's first line, the sequence is the rest of the chunk without its whitespace.
  \<open>claimed_fasta_records\<close> is the result the specification describes for a whole text:
  one record for each non-empty chunk after the first \<open>>\<close>, or the single record
  \<open>unknown_id\<close> holding the text without its line breaks.
\<close>

definition chunk_record :: "string \<Rightarrow> pydict" where
  "chunk_record c =
     fasta_record (takeWhile (\<lambda>x. x \<noteq> LF) c)
       (filter (\<lambda>x. \<not> py_isspace x) (dropWhile (\<lambda>x. x \<noteq> LF) c))"

definition claimed_fasta_records :: "string \<Rightarrow> pydict list" where
  "claimed_fasta_records text =
     (if CHR ''>'' \<in> set text
      then map chunk_record (filter (\<lambda>c. c \<noteq> []) (drop 1 (py_split_on (CHR ''>'') text)))
      else [fasta_record ''unknown_id'' (filter (\<lambda>x. x \<noteq> LF) text)])"

text \<open>The id and the sequence of a dictionary, and the pair of both lookups.\<close>

definition record_id :: "pydict \<Rightarrow> string" where
  "record_id d = (case map_of d ''id'' of Some i \<Rightarrow> i | None \<Rightarrow> [])"

definition record_sequence :: "pydict \<Rightarrow> string" where
  "record_sequence d = (case map_of d ''sequence'' of Some s \<Rightarrow> s | None \<Rightarrow> [])"

definition id_sequence :: "pydict \<Rightarrow> string option \<times> string option" where
  "id_sequence d = (map_of d ''id'', map_of d ''sequence'')"

definition has_id_and_sequence :: "pydict \<Rightarrow> bool" where
  "has_id_and_sequence d = (map_of d ''id'' \<noteq> None \<and> map_of d ''sequence'' \<noteq> None)"

definition has_required_keys :: "pyobj \<Rightarrow> bool" where
  "has_required_keys r = (case r of PyDict d \<Rightarrow> has_id_and_sequence d | _ \<Rightarrow> False)"

text \<open>The FASTA block of a record, and the block without its leading \<open>>\<close>.\<close>

definition fasta_chunk :: "pydict \<Rightarrow> string" where
  "fasta_chunk d = record_id d @ [LF] @ record_sequence d @ [LF]"

definition fasta_block :: "pydict \<Rightarrow> string" where
  "fasta_block d = CHR ''>'' # fasta_chunk d"

text \<open>
  The records of the round trip: the id is a single line (no line feed, no carriage
  return) without \<open>>\<close>, the sequence has no whitespace character and no \<open>>\<close>.
\<close>

definition round_trip_record :: "pydict \<Rightarrow> bool" where
  "round_trip_record d =
     (case id_sequence d of
        (Some i, Some s) \<Rightarrow>
          LF \<notin> set i \<and> CR \<notin> set i \<and> CHR ''>'' \<notin> set i
          \<and> filter py_isspace s = [] \<and> CHR ''>'' \<notin> set s
      | _ \<Rightarrow> False)"

text \<open>
  The letters \<open>gc_content\<close> is said to count, and the float operations kept as the
  expression they compute, for the examples.
\<close>

definition gc_letter :: "char \<Rightarrow> bool" where
  "gc_letter c = (c = CHR ''G'' \<or> c = CHR ''C'' \<or> c = CHR ''g'' \<or> c = CHR ''c'')"

datatype float_expr = Quotient nat nat | Times nat float_expr

definition ascii_alphanumeric :: "char \<Rightarrow> bool" where
  "ascii_alphanumeric c =
     (let n = (of_char c :: nat)
      in (48 \<le> n \<and> n \<le> 57) \<or> (65 \<le> n \<and> n \<le> 90) \<or> (97 \<le> n \<and> n \<le> 122))"

text \<open>
  Two file systems for the examples: one with no file, where every path can be opened
  for writing, and a read-only tree with a directory \<open>lib\<close> of four files and a
  directory \<open>d\<close> whose only entry is the subdirectory \<open>x.fa\<close>.
\<close>

definition empty_fs :: filesystem where
  "empty_fs = \<lparr>nodes = (\<lambda>path. None), writable = (\<lambda>path. True)\<rparr>"

definition example_tree :: filesystem where
  "example_tree =
     \<lparr>nodes = [''d'' \<mapsto> Dir [''x.fa''], ''d/x.fa'' \<mapsto> Dir [''y.txt''],
               ''lib'' \<mapsto> Dir [''one.fa'', ''alfa'', ''notes.txt'', ''two.fa''],
               ''lib/one.fa'' \<mapsto> File (Some ''''), ''lib/alfa'' \<mapsto> File (Some ''''),
               ''lib/notes.txt'' \<mapsto> File (Some ''''), ''lib/two.fa'' \<mapsto> File (Some '''')],
      writable = (\<lambda>path. False)\<rparr>"


section \<open>Properties of the sequence transforms\<close>

lemma complement_dict_Some:
  "dna_letter c \<Longrightarrow> complement_dict c = Some (base_pair c)"
  by (auto simp: dna_letter_def complement_dict_def base_pair_def)

lemma complement_dict_None:
  "\<not> dna_letter c \<Longrightarrow> complement_dict c = None"
  by (simp add: dna_letter_def complement_dict_def)

lemma complement_bases_ok:
  "list_all dna_letter s \<Longrightarrow> complement_bases s = Inr (map base_pair s)"
  by (induction s) (simp_all add: complement_dict_Some)

lemma complement_bases_error:
  "\<not> list_all dna_letter s \<Longrightarrow>
     \<exists>c. c \<in> set s \<and> \<not> dna_letter c \<and> complement_bases s = Inl (KeyError [c])"
proof (induction s)
  case Nil
  then show ?case by simp
next
  case (Cons base rest)
  show ?case
  proof (cases "dna_letter base")
    case False
    then show ?thesis by (auto simp: complement_dict_None)
  next
    case True
    with Cons.prems have "\<not> list_all dna_letter rest" by simp
    from Cons.IH [OF this] obtain c where
      "c \<in> set rest" "\<not> dna_letter c" "complement_bases rest = Inl (KeyError [c])"
      by blast
    with True show ?thesis by (auto simp: complement_dict_Some)
  qed
qed

lemma is_valid_dna_iff: "is_valid_dna s \<longleftrightarrow> list_all dna_letter s"
  by (induction s) (auto simp: valid_bases_def dna_letter_def)

lemma dna_letter_base_pair: "dna_letter c \<Longrightarrow> dna_letter (base_pair c)"
  by (auto simp: dna_letter_def base_pair_def)

lemma base_pair_involution: "dna_letter c \<Longrightarrow> base_pair (base_pair c) = c"
  by (auto simp: dna_letter_def base_pair_def)

text \<open>
  C4. For every string \<open>s\<close>, \<open>complement s\<close> raises a lookup error (\<open>KeyError\<close>)
  if and only if some character of \<open>s\<close> is outside \<open>{A, T, C, G}\<close> (upper case only),
  and otherwise it returns \<open>s\<close> with each character mapped through the table
  \<open>A \<leftrightarrow> T\<close>, \<open>C \<leftrightarrow> G\<close>.
\<close>

theorem complement_lookup_error_iff:
  "((\<exists>k. complement s = Inl (KeyError k)) \<longleftrightarrow>
      (\<exists>c \<in> set s. c \<notin> {CHR ''A'', CHR ''T'', CHR ''C'', CHR ''G''}))
   \<and> ((\<forall>c \<in> set s. c \<in> {CHR ''A'', CHR ''T'', CHR ''C'', CHR ''G''}) \<longrightarrow>
        complement s = Inr (map base_pair s))
   \<and> (\<forall>e. complement s = Inl e \<longrightarrow> (\<exists>c \<in> set s. \<not> dna_letter c \<and> e = KeyError [c]))"
proof (cases "list_all dna_letter s")
  case True
  then have "complement s = Inr (map base_pair s)"
    by (simp add: complement_def complement_bases_ok)
  moreover from True have "\<forall>c \<in> set s. c \<in> {CHR ''A'', CHR ''T'', CHR ''C'', CHR ''G''}"
    by (auto simp: list_all_iff dna_letter_def)
  ultimately show ?thesis by auto
next
  case False
  from complement_bases_error [OF this] obtain c where
    c: "c \<in> set s" "\<not> dna_letter c" "complement s = Inl (KeyError [c])"
    by (auto simp: complement_def)
  then have "\<exists>c \<in> set s. c \<notin> {CHR ''A'', CHR ''T'', CHR ''C'', CHR ''G''}"
    by (auto simp: dna_letter_def)
  with c show ?thesis by auto
qed

theorem complement_lookup_error_iff_witness:
  "complement ''ATCG'' = Inr ''TAGC'' \<and> complement ''ATcG'' = Inl (KeyError ''c'')
   \<and> complement ''ANT'' = Inl (KeyError ''N'')"
  using complement_lookup_error_iff [of "''ATCG''"]
    complement_lookup_error_iff [of "''ATcG''"]
    complement_lookup_error_iff [of "''ANT''"]
  by (auto simp: base_pair_def dna_letter_def)

text \<open>
  C5. For every string \<open>s\<close> over the alphabet \<open>{A, T, G, C}\<close>, \<open>reverse_complement\<close>
  returns a string, and \<open>reverse_complement\<close> of that string returns \<open>s\<close>.
\<close>

theorem reverse_complement_involution:
  assumes "set s \<subseteq> {CHR ''A'', CHR ''T'', CHR ''G'', CHR ''C''}"
  shows "\<exists>t. reverse_complement s = Inr t \<and> reverse_complement t = Inr s"
proof -
  from assms have s: "list_all dna_letter s"
    by (auto simp: list_all_iff dna_letter_def)
  then have 1: "reverse_complement s = Inr (map base_pair (rev s))"
    by (simp add: reverse_complement_def reverse_def complement_def complement_bases_ok)
  from s have "list_all dna_letter (rev (map base_pair (rev s)))"
    by (auto simp: list_all_iff dna_letter_base_pair)
  then have "reverse_complement (map base_pair (rev s)) =
      Inr (map base_pair (rev (map base_pair (rev s))))"
    by (simp add: reverse_complement_def reverse_def complement_def complement_bases_ok)
  also from s have "map base_pair (rev (map base_pair (rev s))) = s"
    by (simp add: rev_map list_all_iff base_pair_involution map_idI)
  finally show ?thesis using 1 by simp
qed

theorem reverse_complement_involution_witness:
  "set ''GATTC'' \<subseteq> {CHR ''A'', CHR ''T'', CHR ''G'', CHR ''C''}
   \<and> reverse_complement ''GATTC'' = Inr ''GAATC''
   \<and> reverse_complement ''GAATC'' = Inr ''GATTC''"
proof -
  have h: "set ''GATTC'' \<subseteq> {CHR ''A'', CHR ''T'', CHR ''G'', CHR ''C''}"
    by simp
  have e: "reverse_complement ''GATTC'' = Inr ''GAATC''"
    by (simp add: reverse_complement_def reverse_def complement_def complement_dict_def)
  from reverse_complement_involution [OF h] e h show ?thesis
    by auto
qed


subsection \<open>gc_content\<close>

lemma char_eq_iff: "(c = d) \<longleftrightarrow> (of_char c :: nat) = of_char d"
  by (metis char_of_char)

lemma count_upper_char:
  "py_count (CHR ''G'') (upper_char c) + py_count (CHR ''C'') (upper_char c)
     = (if gc_letter c then 1 else 0)"
proof -
  have "(of_char c :: nat) < 256" by simp
  then show ?thesis
    by (auto simp: py_count_def upper_char_def gc_letter_def Let_def char_eq_iff [of _ "CHR ''G''"]
        char_eq_iff [of _ "CHR ''C''"] char_eq_iff [of _ "CHR ''g''"] char_eq_iff [of _ "CHR ''c''"]
        char_eq_iff [of "CHR ''G''"] char_eq_iff [of "CHR ''C''"])
qed

lemma count_py_upper:
  "py_count (CHR ''G'') (py_upper s) + py_count (CHR ''C'') (py_upper s)
     = length (filter gc_letter s)"
proof (induction s)
  case Nil
  then show ?case by (simp add: py_upper_def py_count_def)
next
  case (Cons c s)
  have "py_count (CHR ''G'') (py_upper (c # s)) + py_count (CHR ''C'') (py_upper (c # s))
      = (py_count (CHR ''G'') (upper_char c) + py_count (CHR ''C'') (upper_char c))
        + (py_count (CHR ''G'') (py_upper s) + py_count (CHR ''C'') (py_upper s))"
    by (simp add: py_upper_def py_count_def)
  with Cons count_upper_char [of c] show ?case by simp
qed

lemma upper_char_length: "1 \<le> length (upper_char c)"
  by (simp add: upper_char_def Let_def)

lemma py_upper_length: "length s \<le> length (py_upper s)"
proof (induction s)
  case Nil
  then show ?case by (simp add: py_upper_def)
next
  case (Cons c s)
  with upper_char_length [of c] show ?case by (simp add: py_upper_def)
qed

lemma py_upper_length_ascii:
  "list_all (\<lambda>c. (of_char c :: nat) < 128) s \<Longrightarrow> length (py_upper s) = length s"
  by (induction s) (simp_all add: py_upper_def upper_char_def Let_def)

text \<open>
  C6, with the divisor the code uses. \<open>gc_content\<close> raises \<open>ZeroDivisionError\<close> for
  the empty string. For every non-empty string it returns the float
  \<open>100 * (float(k) / n)\<close>, where \<open>k\<close> is the number of characters of the string that
  are \<open>G\<close>, \<open>C\<close>, \<open>g\<close> or \<open>c\<close> and \<open>n\<close> is the length of the upper-cased string; \<open>k\<close>
  is at most the length of the string, which is at most \<open>n\<close>, and \<open>n\<close> is the length
  of the string when all its characters are ASCII.
\<close>

theorem gc_content_value:
  "gc_content float_div int_times [] = Inl ZeroDivisionError
   \<and> (s \<noteq> [] \<longrightarrow>
        gc_content float_div int_times s =
          Inr (int_times 100 (float_div (length (filter gc_letter s)) (length (py_upper s)))))
   \<and> length (filter gc_letter s) \<le> length s
   \<and> length s \<le> length (py_upper s)
   \<and> (list_all (\<lambda>c. (of_char c :: nat) < 128) s \<longrightarrow> length (py_upper s) = length s)"
proof -
  have "s \<noteq> [] \<Longrightarrow> length (py_upper s) \<noteq> 0"
    using py_upper_length [of s] by (cases s) auto
  then show ?thesis
    using count_py_upper [of s] py_upper_length [of s]
    by (auto simp: gc_content_def Let_def py_upper_length_ascii) (simp add: py_upper_def py_count_def)
qed

theorem gc_content_value_witness:
  "gc_content Quotient Times ''GgcAT'' = Inr (Times 100 (Quotient 3 5))
   \<and> gc_content Quotient Times ''ggcc'' = gc_content Quotient Times ''GGCC''"
  using gc_content_value [of Quotient Times "''GgcAT''"]
    gc_content_value [of Quotient Times "''ggcc''"] gc_content_value [of Quotient Times "''GGCC''"]
  by (simp add: gc_letter_def py_upper_def upper_char_def)

text \<open>
  C6 as it is stated fails for a string with a sharp s: the string of \<open>G\<close> and the sharp
  s has two characters, one of them \<open>G\<close>, and the code divides the count 1 by 3, the
  length of \<open>GSS\<close>, not by 2.
\<close>

theorem gc_content_divides_by_upper_length:
  "gc_content Quotient Times [CHR ''G'', CHR 0xDF] = Inr (Times 100 (Quotient 1 3))
   \<and> length (filter gc_letter [CHR ''G'', CHR 0xDF]) = 1
   \<and> length [CHR ''G'', CHR 0xDF] = 2"
  by (simp add: gc_content_def py_upper_def upper_char_def py_count_def gc_letter_def Let_def)


section \<open>Properties of the string primitives\<close>

lemma split_sep_append:
  "sep \<notin> set a \<Longrightarrow> split_sep sep piece (a @ rest) = split_sep sep (piece @ a) rest"
  by (induction a arbitrary: piece) auto

lemma split_sep_no_sep: "sep \<notin> set a \<Longrightarrow> split_sep sep piece a = [piece @ a]"
  using split_sep_append [of sep a piece "[]"] by simp

lemma split_sep_not_Nil: "split_sep sep piece s \<noteq> []"
  by (induction s arbitrary: piece) auto

lemma hd_split_sep:
  "hd (split_sep sep piece s) = piece @ takeWhile (\<lambda>x. x \<noteq> sep) s"
  by (induction s arbitrary: piece) auto

lemma concat_split_sep:
  "concat (split_sep sep piece s) = piece @ filter (\<lambda>x. x \<noteq> sep) s"
  by (induction s arbitrary: piece) auto

lemma concat_split_ws:
  "concat (split_ws word s) = word @ filter (\<lambda>x. \<not> py_isspace x) s"
  by (induction s arbitrary: word) auto

lemma find_from_takeWhile:
  "c \<in> set s \<Longrightarrow> find_from k c s = k + int (length (takeWhile (\<lambda>x. x \<noteq> c) s))"
  by (induction s arbitrary: k) auto

lemma find_from_absent: "c \<notin> set s \<Longrightarrow> find_from k c s = -1"
  by (induction s arbitrary: k) auto

lemma universal_newlines_no_CR: "CR \<notin> set s \<Longrightarrow> universal_newlines s = s"
  by (induction s rule: universal_newlines.induct) auto

lemma hd_py_split_on: "hd (py_split_on sep s) = takeWhile (\<lambda>x. x \<noteq> sep) s"
  by (simp add: py_split_on_def hd_split_sep)

lemma py_find_present:
  "c \<in> set s \<Longrightarrow> py_find c s = int (length (takeWhile (\<lambda>x. x \<noteq> c) s))"
  by (simp add: py_find_def find_from_takeWhile)

lemma slice_from_find:
  "c \<in> set s \<Longrightarrow> slice_from s (py_find c s) = dropWhile (\<lambda>x. x \<noteq> c) s"
  by (simp add: py_find_present slice_from_def dropWhile_eq_drop)

lemma concat_py_split: "concat (py_split s) = filter (\<lambda>x. \<not> py_isspace x) s"
  by (simp add: py_split_def concat_split_ws)

lemma parse_chunks_well_formed:
  "list_all (\<lambda>c. LF \<in> set c) cs \<Longrightarrow>
     parse_chunks vars acc cs = Inr (acc @ map chunk_record cs)"
proof (induction cs arbitrary: vars acc)
  case Nil
  then show ?case by simp
next
  case (Cons c cs)
  then have c: "LF \<in> set c" and cs: "list_all (\<lambda>c. LF \<in> set c) cs"
    by simp_all
  from c have ne: "c \<noteq> []" by auto
  show ?case
    using ne c Cons.IH [OF cs]
    by (simp add: hd_py_split_on slice_from_find concat_py_split chunk_record_def)
qed

section \<open>Properties of the FASTA functions\<close>

subsection \<open>fasta_to_dictionary\<close>

lemma parse_fasta_text_no_header:
  "CHR ''>'' \<notin> set text \<Longrightarrow> parse_fasta_text text = Inr (claimed_fasta_records text)"
  by (simp add: parse_fasta_text_def claimed_fasta_records_def py_split_on_def concat_split_sep)

lemma parse_fasta_text_well_formed:
  assumes "CHR ''>'' \<in> set text"
    and "list_all (\<lambda>c. LF \<in> set c) (drop 1 (py_split_on (CHR ''>'') text))"
  shows "parse_fasta_text text = Inr (claimed_fasta_records text)"
proof -
  let ?chunks = "drop 1 (py_split_on (CHR ''>'') text)"
  from assms(2) have "\<forall>c \<in> set ?chunks. c \<noteq> []"
    by (auto simp: list_all_iff)
  then have "filter (\<lambda>c. c \<noteq> []) ?chunks = ?chunks"
    by (simp add: filter_id_conv)
  with assms(1) parse_chunks_well_formed [OF assms(2), of None "[]"] show ?thesis
    by (simp add: parse_fasta_text_def claimed_fasta_records_def)
qed

text \<open>
  C1. For a readable text file, \<open>fasta_to_dictionary\<close> is claimed to return the records
  of \<open>claimed_fasta_records\<close>: one record \<open>unknown_id\<close> when the text has no \<open>>\<close>,
  and otherwise one record for each non-empty chunk after the first \<open>>\<close>, with the
  chunk's first line as id and the rest of the chunk, without its whitespace, as
  sequence. The code does so when every chunk has a line break
  (\<open>parse_fasta_text_no_header\<close>, \<open>parse_fasta_text_well_formed\<close>), and not
  otherwise: an empty chunk after a record gives one more record, with the id of the
  record before it and an empty sequence; an empty chunk before the first record makes
  the function raise; and a chunk without a line break gets its own last character as
  sequence.
\<close>

theorem fasta_to_dictionary_stray_chunks:
  "snd (fasta_to_dictionary (store_text empty_fs ''in.fa'' ''>a\<newline>AC\<newline>>'') ''in.fa'')
     = Inr [fasta_record ''a'' ''AC'', fasta_record ''a'' '''']
   \<and> claimed_fasta_records ''>a\<newline>AC\<newline>>'' = [fasta_record ''a'' ''AC'']
   \<and> snd (fasta_to_dictionary (store_text empty_fs ''in.fa'' ''>>a\<newline>AC\<newline>'') ''in.fa'')
     = Inl (not_accessible ''in.fa'')
   \<and> claimed_fasta_records ''>>a\<newline>AC\<newline>'' = [fasta_record ''a'' ''AC'']
   \<and> snd (fasta_to_dictionary (store_text empty_fs ''in.fa'' ''>abc'') ''in.fa'')
     = Inr [fasta_record ''abc'' ''c'']
   \<and> claimed_fasta_records ''>abc'' = [fasta_record ''abc'' '''']"
  by (simp add: fasta_to_dictionary_def is_file_def read_text_def store_text_def
      parse_fasta_text_def py_split_on_def py_find_def slice_from_def py_split_def
      py_isspace_def fasta_record_def Let_def empty_fs_def claimed_fasta_records_def
      chunk_record_def)

subsection \<open>Writing and parsing again\<close>

lemma write_records_valid:
  "list_all has_id_and_sequence ds \<Longrightarrow>
     write_records ''fasta'' written (map PyDict ds) =
       (written @ concat (map fasta_block ds), Inr ())"
proof (induction ds arbitrary: written)
  case Nil
  then show ?case by simp
next
  case (Cons d ds)
  then obtain i s where d: "map_of d ''id'' = Some i" "map_of d ''sequence'' = Some s"
    by (auto simp: has_id_and_sequence_def)
  from Cons.prems have "list_all has_id_and_sequence ds" by simp
  from Cons.IH [OF this] d show ?case
    by (simp add: fasta_block_def fasta_chunk_def record_id_def record_sequence_def)
qed

lemma split_sep_blocks:
  "list_all (\<lambda>d. CHR ''>'' \<notin> set (fasta_chunk d)) ds \<Longrightarrow>
     split_sep (CHR ''>'') piece (concat (map fasta_block ds)) = piece # map fasta_chunk ds"
proof (induction ds arbitrary: piece)
  case Nil
  then show ?case by simp
next
  case (Cons d ds)
  then have d: "CHR ''>'' \<notin> set (fasta_chunk d)"
    and ds: "list_all (\<lambda>d. CHR ''>'' \<notin> set (fasta_chunk d)) ds"
    by simp_all
  have "split_sep (CHR ''>'') piece (concat (map fasta_block (d # ds))) =
      piece # split_sep (CHR ''>'') [] (fasta_chunk d @ concat (map fasta_block ds))"
    by (simp add: fasta_block_def)
  also have "split_sep (CHR ''>'') [] (fasta_chunk d @ concat (map fasta_block ds)) =
      split_sep (CHR ''>'') (fasta_chunk d) (concat (map fasta_block ds))"
    using split_sep_append [OF d, of "[]"] by simp
  also have "\<dots> = fasta_chunk d # map fasta_chunk ds"
    by (rule Cons.IH [OF ds])
  finally show ?case by simp
qed

lemma py_isspace_LF: "py_isspace LF"
  by (simp add: py_isspace_def)

lemma round_trip_record_keys: "round_trip_record d \<Longrightarrow> has_id_and_sequence d"
  by (auto simp: round_trip_record_def id_sequence_def has_id_and_sequence_def
      split: option.splits)

lemma chunk_record_fasta_chunk:
  assumes "round_trip_record d"
  shows "chunk_record (fasta_chunk d) = fasta_record (record_id d) (record_sequence d)"
proof -
  from assms obtain i s where d: "map_of d ''id'' = Some i" "map_of d ''sequence'' = Some s"
    and i: "LF \<notin> set i" and s: "filter py_isspace s = []"
    by (auto simp: round_trip_record_def id_sequence_def split: option.splits)
  from i have ne: "\<forall>x \<in> set i. x \<noteq> LF"
    by auto
  have 1: "takeWhile (\<lambda>x. x \<noteq> LF) (i @ LF # s @ [LF]) = i"
    using takeWhile_append2 [of i "\<lambda>x. x \<noteq> LF" "LF # s @ [LF]"] ne by simp
  have 2: "dropWhile (\<lambda>x. x \<noteq> LF) (i @ LF # s @ [LF]) = LF # s @ [LF]"
    using dropWhile_append2 [of i "\<lambda>x. x \<noteq> LF" "LF # s @ [LF]"] ne by simp
  from s have 3: "filter (\<lambda>x. \<not> py_isspace x) s = s"
    by (simp add: filter_empty_conv)
  from d 1 2 3 show ?thesis
    by (simp add: chunk_record_def fasta_chunk_def record_id_def record_sequence_def
        py_isspace_LF)
qed

lemma fasta_chunk_no_gt: "round_trip_record d \<Longrightarrow> CHR ''>'' \<notin> set (fasta_chunk d)"
  by (auto simp: round_trip_record_def id_sequence_def fasta_chunk_def record_id_def
      record_sequence_def split: option.splits)

lemma fasta_block_no_CR: "round_trip_record d \<Longrightarrow> CR \<notin> set (fasta_block d)"
  by (auto simp: round_trip_record_def id_sequence_def fasta_block_def fasta_chunk_def
      record_id_def record_sequence_def py_isspace_def filter_empty_conv split: option.splits)

lemma parse_fasta_text_blocks:
  assumes "ds \<noteq> []" and "list_all round_trip_record ds"
  shows "parse_fasta_text (concat (map fasta_block ds)) =
      Inr (map (\<lambda>d. fasta_record (record_id d) (record_sequence d)) ds)"
proof -
  let ?text = "concat (map fasta_block ds)"
  from assms(1) have gt: "CHR ''>'' \<in> set ?text"
    by (cases ds) (simp_all add: fasta_block_def)
  from assms(2) have "list_all (\<lambda>d. CHR ''>'' \<notin> set (fasta_chunk d)) ds"
    by (simp add: list_all_iff fasta_chunk_no_gt)
  then have split: "py_split_on (CHR ''>'') ?text = [] # map fasta_chunk ds"
    by (simp add: py_split_on_def split_sep_blocks)
  have lf: "list_all (\<lambda>c. LF \<in> set c) (map fasta_chunk ds)"
    by (simp add: list_all_iff fasta_chunk_def)
  from assms(2) have "map chunk_record (map fasta_chunk ds) =
      map (\<lambda>d. fasta_record (record_id d) (record_sequence d)) ds"
    by (simp add: list_all_iff chunk_record_fasta_chunk)
  with gt split parse_chunks_well_formed [OF lf, of None "[]"] show ?thesis
    by (simp add: parse_fasta_text_def)
qed

text \<open>
  C2, with the sequences free of \<open>>\<close> as well. For every non-empty list of records
  whose ids are single lines without \<open>>\<close> and whose sequences have no whitespace and
  no \<open>>\<close>, \<open>write_to_file\<close> in format \<open>fasta\<close>, to a non-empty path that can be opened
  for writing, returns normally, and \<open>fasta_to_dictionary\<close> on that path then prints
  nothing and returns records with the same id and sequence, in the same order.
\<close>

theorem write_then_parse_round_trip:
  assumes "ds \<noteq> []" and "list_all round_trip_record ds"
    and "name \<noteq> []" and "writable fs name"
  shows "\<exists>fs' parsed.
      write_to_file fs (PyList (map PyDict ds)) (Some name) ''fasta'' = (Inr (), fs')
      \<and> fasta_to_dictionary fs' name = ([], Inr parsed)
      \<and> map id_sequence parsed = map id_sequence ds"
proof -
  let ?text = "concat (map fasta_block ds)"
  let ?fs = "store_text fs name ?text"
  let ?parsed = "map (\<lambda>d. fasta_record (record_id d) (record_sequence d)) ds"
  from assms(2) have keys: "list_all has_id_and_sequence ds"
    by (simp add: list_all_iff round_trip_record_keys)
  from assms(1,3,4) write_records_valid [OF keys, of "[]"]
  have w: "write_to_file fs (PyList (map PyDict ds)) (Some name) ''fasta'' = (Inr (), ?fs)"
    by (simp add: write_to_file_def)
  from assms(2) have "CR \<notin> set ?text"
    by (auto simp: list_all_iff fasta_block_no_CR)
  then have "read_text ?fs name = Some ?text"
    by (simp add: read_text_def store_text_def universal_newlines_no_CR)
  moreover have "is_file ?fs name"
    by (simp add: is_file_def store_text_def)
  ultimately have r: "fasta_to_dictionary ?fs name = ([], Inr ?parsed)"
    using parse_fasta_text_blocks [OF assms(1,2)] by (simp add: fasta_to_dictionary_def)
  have "\<forall>d \<in> set ds. id_sequence (fasta_record (record_id d) (record_sequence d)) = id_sequence d"
    using assms(2)
    by (auto simp: list_all_iff fasta_record_def round_trip_record_def
        id_sequence_def record_id_def record_sequence_def split: option.splits)
  then have "map id_sequence ?parsed = map id_sequence ds"
    by simp
  with w r show ?thesis by blast
qed

text \<open>
  Two records, the second with its keys in the other order; the file holds one block
  for each.
\<close>

theorem write_then_parse_round_trip_witness:
  "write_to_file empty_fs
      (PyList (map PyDict [fasta_record ''seq 1'' ''ACGT'', [(''sequence'', ''GG''), (''id'', ''s2'')]]))
      (Some ''out.fa'') ''fasta''
    = (Inr (), store_text empty_fs ''out.fa'' ''>seq 1\<newline>ACGT\<newline>>s2\<newline>GG\<newline>'')
   \<and> fasta_to_dictionary (store_text empty_fs ''out.fa'' ''>seq 1\<newline>ACGT\<newline>>s2\<newline>GG\<newline>'') ''out.fa''
    = ([], Inr [fasta_record ''seq 1'' ''ACGT'', fasta_record ''s2'' ''GG''])"
proof -
  let ?ds = "[fasta_record ''seq 1'' ''ACGT'', [(''sequence'', ''GG''), (''id'', ''s2'')]]"
  let ?fs = "store_text empty_fs ''out.fa'' ''>seq 1\<newline>ACGT\<newline>>s2\<newline>GG\<newline>''"
  have 1: "?ds \<noteq> []" by simp
  have 2: "list_all round_trip_record ?ds"
    by (simp add: round_trip_record_def id_sequence_def fasta_record_def py_isspace_def)
  have 3: "''out.fa'' \<noteq> []" by simp
  have 4: "writable empty_fs ''out.fa''" by (simp add: empty_fs_def)
  have w: "write_to_file empty_fs (PyList (map PyDict ?ds)) (Some ''out.fa'') ''fasta''
    = (Inr (), ?fs)"
    by (simp add: write_to_file_def empty_fs_def fasta_record_def)
  from write_then_parse_round_trip [OF 1 2 3 4] obtain fs' parsed where
    a: "write_to_file empty_fs (PyList (map PyDict ?ds)) (Some ''out.fa'') ''fasta'' = (Inr (), fs')"
    and b: "fasta_to_dictionary fs' ''out.fa'' = ([], Inr parsed)"
    and c: "map id_sequence parsed = map id_sequence ?ds"
    by blast
  from a w have fs': "fs' = ?fs"
    by simp
  have "fasta_to_dictionary ?fs ''out.fa''
    = ([], Inr [fasta_record ''seq 1'' ''ACGT'', fasta_record ''s2'' ''GG''])"
    by (simp add: fasta_to_dictionary_def is_file_def read_text_def store_text_def
        parse_fasta_text_def py_split_on_def py_find_def slice_from_def py_split_def
        py_isspace_def fasta_record_def Let_def)
  with w b fs' show ?thesis by simp
qed

text \<open>
  C2 as it is stated fails for a sequence that contains \<open>>\<close>, which is no whitespace:
  the record with id \<open>x\<close> and sequence \<open>A>C\<close> is written and comes back as two
  records, \<open>x\<close> with sequence \<open>A\<close> and \<open>C\<close> with an empty sequence.
\<close>

theorem round_trip_counterexample:
  "LF \<notin> set ''x'' \<and> CR \<notin> set ''x'' \<and> CHR ''>'' \<notin> set ''x''
   \<and> ''A>C'' \<noteq> [] \<and> filter py_isspace ''A>C'' = []
   \<and> write_to_file empty_fs (PyList [PyDict (fasta_record ''x'' ''A>C'')]) (Some ''out.fa'') ''fasta''
       = (Inr (), store_text empty_fs ''out.fa'' ''>x\<newline>A>C\<newline>'')
   \<and> fasta_to_dictionary (store_text empty_fs ''out.fa'' ''>x\<newline>A>C\<newline>'') ''out.fa''
       = ([], Inr [fasta_record ''x'' ''A'', fasta_record ''C'' ''''])"
  by (simp add: fasta_to_dictionary_def is_file_def read_text_def store_text_def
      parse_fasta_text_def py_split_on_def py_find_def slice_from_def py_split_def
      py_isspace_def fasta_record_def Let_def write_to_file_def empty_fs_def)

subsection \<open>write_to_file\<close>

lemma write_records_bad_record:
  "\<exists>r \<in> set rs. \<not> has_required_keys r \<Longrightarrow> isl (snd (write_records format written rs))"
proof (induction rs arbitrary: written)
  case Nil
  then show ?case by simp
next
  case (Cons r rs)
  show ?case
  proof (cases "has_required_keys r")
    case False
    then show ?thesis
      by (cases r) (auto simp: has_required_keys_def has_id_and_sequence_def split: option.splits)
  next
    case True
    with Cons.prems have "\<exists>r \<in> set rs. \<not> has_required_keys r" by simp
    from Cons.IH [OF this] True show ?thesis
      by (cases r) (auto simp: has_required_keys_def has_id_and_sequence_def split: option.splits)
  qed
qed

lemma write_records_bad_format:
  "format \<noteq> ''fasta'' \<Longrightarrow> rs \<noteq> [] \<Longrightarrow> isl (snd (write_records format written rs))"
proof (cases rs)
  case Nil
  assume "rs \<noteq> []"
  with Nil show ?thesis by simp
next
  case (Cons r rest)
  assume "format \<noteq> ''fasta''"
  with Cons show ?thesis
    by (cases r) (auto split: option.splits)
qed

lemma elements_not_Nil: "is_sequence data \<Longrightarrow> truthy data \<Longrightarrow> elements data \<noteq> []"
  by (cases data) simp_all

lemma write_to_file_loop_error:
  assumes "is_sequence data" and "isl (snd (write_records format [] (elements data)))"
  shows "isl (fst (write_to_file fs data filename format))"
proof -
  obtain written outcome where w: "write_records format [] (elements data) = (written, outcome)"
    by (cases "write_records format [] (elements data)")
  with assms(2) have "isl outcome" by simp
  then obtain e where "outcome = Inl e" by (cases outcome) auto
  with w assms(1) show ?thesis
    by (simp add: write_to_file_def split: option.splits)
qed

text \<open>
  On sequences: \<open>write_to_file\<close> raises an exception whenever \<open>records\<close> is empty (or any other
  false value), or \<open>filename\<close> is empty or \<open>None\<close>, or \<open>records\<close> is a sequence with an
  element that is not a dictionary holding the keys \<open>id\<close> and \<open>sequence\<close>, or
  \<open>records\<close> is a sequence and \<open>format\<close> is a string other than \<open>fasta\<close>.
\<close>

theorem write_to_file_signals_error:
  "(data = PyList [] \<or> \<not> truthy data \<longrightarrow> isl (fst (write_to_file fs data filename format)))
   \<and> (filename = None \<or> filename = Some [] \<longrightarrow>
        isl (fst (write_to_file fs data filename format)))
   \<and> (is_sequence data \<and> (\<exists>r \<in> set (elements data). \<not> has_required_keys r) \<longrightarrow>
        isl (fst (write_to_file fs data filename format)))
   \<and> (is_sequence data \<and> format \<noteq> ''fasta'' \<longrightarrow>
        isl (fst (write_to_file fs data filename format)))"
proof (intro conjI impI)
  assume "data = PyList [] \<or> \<not> truthy data"
  then have "\<not> truthy data" by auto
  then show "isl (fst (write_to_file fs data filename format))"
    by (simp add: write_to_file_def)
next
  assume "filename = None \<or> filename = Some []"
  then show "isl (fst (write_to_file fs data filename format))"
    by (auto simp: write_to_file_def)
next
  assume a: "is_sequence data \<and> (\<exists>r \<in> set (elements data). \<not> has_required_keys r)"
  then have "isl (snd (write_records format [] (elements data)))"
    by (simp add: write_records_bad_record)
  with a show "isl (fst (write_to_file fs data filename format))"
    by (simp add: write_to_file_loop_error)
next
  assume a: "is_sequence data \<and> format \<noteq> ''fasta''"
  show "isl (fst (write_to_file fs data filename format))"
  proof (cases "truthy data")
    case False
    then show ?thesis by (simp add: write_to_file_def)
  next
    case True
    with a have "elements data \<noteq> []" by (simp add: elements_not_Nil)
    with a have "isl (snd (write_records format [] (elements data)))"
      by (simp add: write_records_bad_format)
    with a show ?thesis by (simp add: write_to_file_loop_error)
  qed
qed

theorem write_to_file_signals_error_witness:
  "isl (fst (write_to_file empty_fs (PyList []) (Some ''out.fa'') ''fasta''))
   \<and> isl (fst (write_to_file empty_fs (PyList [PyDict (fasta_record ''a'' ''AC'')]) None ''fasta''))
   \<and> isl (fst (write_to_file empty_fs (PyList [PyDict (fasta_record ''a'' ''AC'')]) (Some '''') ''fasta''))
   \<and> isl (fst (write_to_file empty_fs
        (PyList [PyDict (fasta_record ''a'' ''AC''), PyDict [(''id'', ''b'')]]) (Some ''out.fa'') ''fasta''))
   \<and> isl (fst (write_to_file empty_fs
        (PyList [PyDict (fasta_record ''a'' ''AC''), PyStr ''b'']) (Some ''out.fa'') ''fasta''))
   \<and> isl (fst (write_to_file empty_fs
        (PyList [PyDict (fasta_record ''a'' ''AC'')]) (Some ''out.gb'') ''genbank''))"
proof -
  have "isl (fst (write_to_file empty_fs (PyList []) (Some ''out.fa'') ''fasta''))"
    using write_to_file_signals_error [of "PyList []" empty_fs "Some ''out.fa''" "''fasta''"]
    by simp
  moreover have "isl (fst (write_to_file empty_fs (PyList [PyDict (fasta_record ''a'' ''AC'')]) None ''fasta''))"
    using write_to_file_signals_error
      [of "PyList [PyDict (fasta_record ''a'' ''AC'')]" empty_fs None "''fasta''"]
    by simp
  moreover have "isl (fst (write_to_file empty_fs (PyList [PyDict (fasta_record ''a'' ''AC'')]) (Some '''') ''fasta''))"
    using write_to_file_signals_error
      [of "PyList [PyDict (fasta_record ''a'' ''AC'')]" empty_fs "Some ''''" "''fasta''"]
    by simp
  moreover have "isl (fst (write_to_file empty_fs
        (PyList [PyDict (fasta_record ''a'' ''AC''), PyDict [(''id'', ''b'')]]) (Some ''out.fa'') ''fasta''))"
    using write_to_file_signals_error
      [of "PyList [PyDict (fasta_record ''a'' ''AC''), PyDict [(''id'', ''b'')]]" empty_fs
        "Some ''out.fa''" "''fasta''"]
    by (simp add: has_required_keys_def has_id_and_sequence_def fasta_record_def)
  moreover have "isl (fst (write_to_file empty_fs
        (PyList [PyDict (fasta_record ''a'' ''AC''), PyStr ''b'']) (Some ''out.fa'') ''fasta''))"
    using write_to_file_signals_error
      [of "PyList [PyDict (fasta_record ''a'' ''AC''), PyStr ''b'']" empty_fs
        "Some ''out.fa''" "''fasta''"]
    by (simp add: has_required_keys_def has_id_and_sequence_def fasta_record_def)
  moreover have "isl (fst (write_to_file empty_fs
        (PyList [PyDict (fasta_record ''a'' ''AC'')]) (Some ''out.gb'') ''genbank''))"
    using write_to_file_signals_error
      [of "PyList [PyDict (fasta_record ''a'' ''AC'')]" empty_fs "Some ''out.gb''" "''genbank''"]
    by simp
  ultimately show ?thesis by simp
qed

text \<open>
  C7. \<open>write_to_file\<close> is claimed to raise whenever an element of \<open>records\<close> is not a
  dictionary with the keys \<open>id\<close> and \<open>sequence\<close>, and whenever \<open>format\<close> is not
  \<open>fasta\<close>. The code does so for every sequence (the lemma above), and not for other
  data: the test for a sequence has no other branch, so a dictionary passed as
  \<open>records\<close>, with the format \<open>genbank\<close>, is accepted: the function returns and
  writes nothing. So is a set whose element is no dictionary.
\<close>

theorem write_to_file_accepts_mapping:
  "write_to_file empty_fs (PyDict [(''id'', ''a''), (''sequence'', ''AC'')]) (Some ''out.gb'') ''genbank''
     = (Inr (), empty_fs)
   \<and> write_to_file empty_fs (PySet [PyInt 1]) (Some ''out.fa'') ''fasta'' = (Inr (), empty_fs)
   \<and> has_required_keys (PyInt 1) = False"
  by (simp add: write_to_file_def has_required_keys_def)

text \<open>
  C10. For every true value \<open>data\<close> that is not a sequence (a non-empty dictionary or
  set, a non-zero integer) and every non-empty \<open>filename\<close>, \<open>write_to_file\<close> returns
  without an exception and leaves the file system as it was: nothing is opened or
  written.
\<close>

theorem write_to_file_ignores_non_sequence:
  assumes "truthy data" and "\<not> is_sequence data" and "name \<noteq> []"
  shows "write_to_file fs data (Some name) format = (Inr (), fs)"
  using assms by (simp add: write_to_file_def)

theorem write_to_file_ignores_non_sequence_witness:
  "truthy (PyDict (fasta_record ''a'' ''AC'')) \<and> is_sequence (PyDict (fasta_record ''a'' ''AC'')) = False
   \<and> write_to_file empty_fs (PyDict (fasta_record ''a'' ''AC'')) (Some ''out.fa'') ''fasta''
       = (Inr (), empty_fs)
   \<and> write_to_file empty_fs (PySet [PyDict (fasta_record ''a'' ''AC'')]) (Some ''out.fa'') ''genbank''
       = (Inr (), empty_fs)"
proof -
  have 1: "truthy (PyDict (fasta_record ''a'' ''AC''))"
    by (simp add: fasta_record_def)
  have 2: "\<not> is_sequence (PyDict (fasta_record ''a'' ''AC''))"
    by simp
  have 3: "''out.fa'' \<noteq> []" by simp
  have 4: "truthy (PySet [PyDict (fasta_record ''a'' ''AC'')])" by simp
  have 5: "\<not> is_sequence (PySet [PyDict (fasta_record ''a'' ''AC'')])" by simp
  from write_to_file_ignores_non_sequence [OF 1 2 3, of empty_fs "''fasta''"]
    write_to_file_ignores_non_sequence [OF 4 5 3, of empty_fs "''genbank''"] 1 2
  show ?thesis by simp
qed

section \<open>Properties of the identifiers and the file helpers\<close>

subsection \<open>generate_sequence_info\<close>

lemma fst_random_choices_Suc:
  "fst (random_choices seq (Suc n) g) =
     fst (random_choice seq g) # fst (random_choices seq n (snd (random_choice seq g)))"
  by (simp split: prod.splits)

lemma random_choices_length: "length (fst (random_choices seq n g)) = n"
proof (induction n arbitrary: g)
  case 0
  then show ?case by simp
next
  case (Suc n)
  then show ?case by (simp del: random_choices.simps add: fst_random_choices_Suc)
qed

lemma random_choices_subset:
  assumes "seq \<noteq> []"
  shows "set (fst (random_choices seq n g)) \<subseteq> set seq"
proof (induction n arbitrary: g)
  case 0
  then show ?case by simp
next
  case (Suc n)
  from assms have "fst (random_choice seq g) \<in> set seq"
    by (simp add: random_choice_def)
  with Suc show ?case by (simp del: random_choices.simps add: fst_random_choices_Suc)
qed

lemma alphabet_alphanumeric: "list_all ascii_alphanumeric (ascii_letters @ digits)"
  by (simp add: ascii_letters_def digits_def ascii_alphanumeric_def)

lemma utf8_encode_ascii: "list_all (\<lambda>c. (of_char c :: nat) < 128) s \<Longrightarrow> utf8_encode s = s"
  by (induction s) (simp_all add: utf8_encode_def)

lemma ascii_alphanumeric_below_128: "ascii_alphanumeric c \<Longrightarrow> (of_char c :: nat) < 128"
  by (auto simp: ascii_alphanumeric_def Let_def)

text \<open>
  C9. For every input string and every description the caller passes,
  \<open>generate_sequence_info\<close> returns a record whose \<open>sequence_id\<close> has 32 characters,
  all of them ASCII letters or digits, whose \<open>hash_id\<close> is the digest of that
  \<open>sequence_id\<close> (so it is the same whatever the sequence), whose \<open>sequence\<close> is the
  input without its whitespace characters, and whose \<open>description\<close> is \<open>None\<close>.
\<close>

theorem generate_sequence_info_record:
  "length (sequence_id (fst (generate_sequence_info sha224_hexdigest g s d))) = 32
   \<and> list_all ascii_alphanumeric (sequence_id (fst (generate_sequence_info sha224_hexdigest g s d)))
   \<and> hash_id (fst (generate_sequence_info sha224_hexdigest g s d))
       = generate_hash sha224_hexdigest (sequence_id (fst (generate_sequence_info sha224_hexdigest g s d)))
   \<and> hash_id (fst (generate_sequence_info sha224_hexdigest g s d))
       = sha224_hexdigest (sequence_id (fst (generate_sequence_info sha224_hexdigest g s d)))
   \<and> hash_id (fst (generate_sequence_info sha224_hexdigest g s d))
       = hash_id (fst (generate_sequence_info sha224_hexdigest g s' d'))
   \<and> sequence (fst (generate_sequence_info sha224_hexdigest g s d))
       = filter (\<lambda>c. \<not> py_isspace c) s
   \<and> description (fst (generate_sequence_info sha224_hexdigest g s d)) = None"
proof -
  let ?alphabet = "ascii_letters @ digits"
  obtain chosen g' where c: "random_choices ?alphabet 32 g = (chosen, g')"
    by (cases "random_choices ?alphabet 32 g")
  have len: "length chosen = 32"
    using random_choices_length [of ?alphabet 32 g] c by simp
  have "?alphabet \<noteq> []"
    by (simp add: ascii_letters_def)
  from random_choices_subset [OF this, of 32 g] c have "set chosen \<subseteq> set ?alphabet"
    by simp
  with alphabet_alphanumeric have alnum: "list_all ascii_alphanumeric chosen"
    unfolding list_all_iff by blast
  then have "list_all (\<lambda>c. (of_char c :: nat) < 128) chosen"
    unfolding list_all_iff using ascii_alphanumeric_below_128 by blast
  then have enc: "utf8_encode chosen = chosen"
    by (rule utf8_encode_ascii)
  from c len alnum enc show ?thesis
    by (simp add: generate_sequence_info_def generate_hash_def concat_py_split)
qed

subsection \<open>compress_file\<close>

text \<open>
  C3. For every path: when \<open>gzip\<close> exits with a non-zero status, \<open>compress_file\<close>
  prints (the failure message when the output decodes, and in every case the line
  saying the file has been gzipped) and does not raise the failure of the process: it
  returns, or raises the decoding error of the output; when \<open>gzip\<close> succeeds, it
  raises \<open>OSError\<close> with the message that executing \<open>gzip\<close> failed.
\<close>

theorem compress_file_inverted:
  "(check_output [''gzip'', ''-f'', path] = CalledProcessError (Some out) \<longrightarrow>
      compress_file check_output path =
        ([''Failed to gzip: '' @ out @ ''.'', path @ '' has been gzipped.''], Inr ()))
   \<and> (check_output [''gzip'', ''-f'', path] = CalledProcessError None \<longrightarrow>
      compress_file check_output path = ([path @ '' has been gzipped.''], Inl UnicodeDecodeError))
   \<and> (check_output [''gzip'', ''-f'', path] = Returned \<longrightarrow>
      compress_file check_output path =
        ([path @ '' has been gzipped.''], Inl (OSError ''Failed to execute 'gzip'.'')))"
  by (simp add: compress_file_def)

theorem compress_file_inverted_witness:
  "compress_file (\<lambda>cmd. CalledProcessError (Some ''''))  ''reads.fa''
     = ([''Failed to gzip: .'', ''reads.fa has been gzipped.''], Inr ())
   \<and> compress_file (\<lambda>cmd. CalledProcessError None)  ''reads.fa''
     = ([''reads.fa has been gzipped.''], Inl UnicodeDecodeError)
   \<and> compress_file (\<lambda>cmd. Returned) ''reads.fa''
     = ([''reads.fa has been gzipped.''], Inl (OSError ''Failed to execute 'gzip'.''))"
  using compress_file_inverted [of "\<lambda>cmd. CalledProcessError (Some '''')" "''reads.fa''" "''''"]
    compress_file_inverted [of "\<lambda>cmd. CalledProcessError None" "''reads.fa''"]
    compress_file_inverted [of "\<lambda>cmd. Returned" "''reads.fa''"]
  by simp

subsection \<open>filename_by_extension\<close>

lemma endswith_iff_suffix: "endswith s e \<longleftrightarrow> suffix e s"
proof
  assume "endswith s e"
  then have "s = take (length s - length e) s @ e"
    by (metis append_take_drop_id endswith_def)
  then show "suffix e s"
    by (metis suffixI)
next
  assume "suffix e s"
  then obtain p where "s = p @ e" by (auto simp: suffix_def)
  then show "endswith s e" by (simp add: endswith_def)
qed

text \<open>
  The cases of \<open>filename_by_extension\<close>, as the code has them. When the input is a directory the result lists, in the order
  of the directory listing, the joined paths of the entries (files and subdirectories
  alike) whose names end with the extension; when it is a file, the input itself if
  the path ends with the extension; when it is neither, the function raises
  \<open>ValueError\<close>. It raises \<open>FileNotFoundError\<close> whenever that list is empty, so a
  returned list is never empty.
\<close>

theorem filename_by_extension_cases:
  "(is_dir fs inp \<longrightarrow>
      filename_by_extension fs inp ext =
        (if filter (suffix ext) (listdir fs inp) = [] then Inl (no_matching_file ext)
         else Inr (map (os_path_join inp) (filter (suffix ext) (listdir fs inp)))))
   \<and> (\<not> is_dir fs inp \<and> is_file fs inp \<longrightarrow>
      filename_by_extension fs inp ext =
        (if suffix ext inp then Inr [inp] else Inl (no_matching_file ext)))
   \<and> (\<not> is_dir fs inp \<and> \<not> is_file fs inp \<longrightarrow>
      filename_by_extension fs inp ext = Inl (ValueError (''No such input found: '' @ inp)))
   \<and> filename_by_extension fs inp ext \<noteq> Inr []"
proof -
  have "(\<lambda>entry. endswith entry ext) = suffix ext"
    by (simp add: endswith_iff_suffix fun_eq_iff)
  then show ?thesis
    by (simp add: filename_by_extension_def endswith_iff_suffix)
qed

theorem filename_by_extension_cases_witness:
  "filename_by_extension example_tree ''lib'' ''fa'' = Inr [''lib/one.fa'', ''lib/alfa'', ''lib/two.fa'']
   \<and> filename_by_extension example_tree ''lib'' ''gb'' = Inl (no_matching_file ''gb'')
   \<and> filename_by_extension example_tree ''lib/one.fa'' ''.fa'' = Inr [''lib/one.fa'']
   \<and> filename_by_extension example_tree ''lib/notes.txt'' ''.fa'' = Inl (no_matching_file ''.fa'')
   \<and> filename_by_extension example_tree ''nowhere'' ''.fa''
       = Inl (ValueError ''No such input found: nowhere'')"
proof -
  have d: "is_dir example_tree ''lib''" "\<not> is_dir example_tree ''lib/one.fa''"
    "is_file example_tree ''lib/one.fa''" "\<not> is_dir example_tree ''lib/notes.txt''"
    "is_file example_tree ''lib/notes.txt''" "\<not> is_dir example_tree ''nowhere''"
    "\<not> is_file example_tree ''nowhere''"
    by (simp_all add: is_dir_def is_file_def example_tree_def)
  have l: "listdir example_tree ''lib'' = [''one.fa'', ''alfa'', ''notes.txt'', ''two.fa'']"
    by (simp add: listdir_def example_tree_def)
  have s: "filter (suffix ''fa'') [''one.fa'', ''alfa'', ''notes.txt'', ''two.fa'']
      = [''one.fa'', ''alfa'', ''two.fa'']"
    "filter (suffix ''gb'') [''one.fa'', ''alfa'', ''notes.txt'', ''two.fa''] = []"
    "suffix ''.fa'' ''lib/one.fa''" "\<not> suffix ''.fa'' ''lib/notes.txt''"
    by (simp_all add: endswith_iff_suffix [symmetric] endswith_def)
  from filename_by_extension_cases [of example_tree "''lib''" "''fa''"]
    filename_by_extension_cases [of example_tree "''lib''" "''gb''"]
    filename_by_extension_cases [of example_tree "''lib/one.fa''" "''.fa''"]
    filename_by_extension_cases [of example_tree "''lib/notes.txt''" "''.fa''"]
    filename_by_extension_cases [of example_tree "''nowhere''" "''.fa''"]
    d l s
  show ?thesis
    by (simp add: os_path_join_def startswith_def endswith_def)
qed

text \<open>
  C8. For a directory, \<open>filename_by_extension\<close> is claimed to return the paths of
  the files directly inside it whose names end with the extension, as its docstring
  says. The directory branch has no test for a file, as the branch for a single input
  has: for the directory \<open>d\<close>, whose only entry is the subdirectory \<open>x.fa\<close>, the
  result is the path of that subdirectory, which is not a file, where the claim gives
  no file and so the not-found error.
\<close>

theorem filename_by_extension_returns_directory:
  "is_dir example_tree ''d''
   \<and> filename_by_extension example_tree ''d'' ''fa'' = Inr [''d/x.fa'']
   \<and> is_dir example_tree ''d/x.fa''
   \<and> is_file example_tree ''d/x.fa'' = False"
  by (simp add: filename_by_extension_def is_dir_def is_file_def listdir_def example_tree_def
      os_path_join_def startswith_def endswith_def)

end
